theory Spec2Isabelle
  imports Main
begin

section \<open>Navigation state of the app front-end (AppNavigation.ts)\<close>

text \<open>
  The theory embeds the three classes of \<^verbatim>\<open>frontend/app/src/util/AppNavigation.ts\<close>:
  the legacy strategy \<^verbatim>\<open>AppNavigationV1\<close>, the sectioned strategy
  \<^verbatim>\<open>AppNavigationV2\<close> and the dispatcher \<^verbatim>\<open>AppNavigation\<close>.

  A value that may be \<^verbatim>\<open>null\<close> or \<^verbatim>\<open>undefined\<close> at run time is an
  \<open>option\<close> (\<open>None\<close> for both). Mutation of \<^verbatim>\<open>this\<close> is explicit state passing.
  What a handler does to the outside (callbacks, the document title, the metrics queue,
  messages to the host) is a list of effects, in the order of the calls. A thrown
  \<^verbatim>\<open>TypeError\<close> is \<open>Inl TypeError\<close>; the assignments and the calls made before
  the throw stay in the returned state and effect list.
\<close>

subsection \<open>Messages of the protocol layer\<close>

text \<open>
  The message classes are generated from the protocol definitions of
  \<^verbatim>\<open>@streamlit/lib\<close>; only the fields the handlers read are kept. On a page every field
  is optional, as the handlers' \<^verbatim>\<open>??\<close> and \<^verbatim>\<open>||\<close> defaults expect.
\<close>

record IAppPage =
  pageScriptHash :: "string option"
  pageName :: "string option"
  isDefault :: "bool option"

record Config =
  cfg_hideSidebarNav :: "bool option"

record NewSession =
  ns_appPages :: "IAppPage list"
  ns_pageScriptHash :: string
  ns_config :: "Config option"

record PagesChanged =
  pc_appPages :: "IAppPage list"

record NavigationSection =
  header :: "string option"
  sec_appPages :: "IAppPage list option"

record Navigation =
  sections :: "NavigationSection list"
  position :: string
  nav_pageScriptHash :: string

record PageNotFound =
  pnf_pageName :: string

subsection \<open>State patches, effects and results\<close>

text \<open>
  \<^verbatim>\<open>Map<string, IAppPage[]>\<close>: a JavaScript \<^verbatim>\<open>Map\<close> iterates in the order in which
  its keys were first inserted, and \<^verbatim>\<open>set\<close> on a key already present replaces the value
  in place. It is an association list with distinct keys.
\<close>

type_synonym ('k, 'v) js_map = "('k \<times> 'v) list"

fun Map_set :: "'k \<Rightarrow> 'v \<Rightarrow> ('k, 'v) js_map \<Rightarrow> ('k, 'v) js_map" where
  "Map_set k v [] = [(k, v)]"
| "Map_set k v ((k', v') # m) =
     (if k' = k then (k', v) # m else (k', v') # Map_set k v m)"

text \<open>
  \<^verbatim>\<open>AtLeastOne<AppNavigationState>\<close>: a partial state; \<open>None\<close> is a field the patch
  does not carry.
\<close>

record StatePatch =
  upd_hideSidebarNav :: "bool option"
  upd_appPages :: "IAppPage list option"
  upd_currentPageScriptHash :: "string option"
  upd_navPageSections :: "(string, IAppPage list option) js_map option"

definition no_patch :: StatePatch where
  "no_patch = \<lparr>upd_hideSidebarNav = None, upd_appPages = None,
     upd_currentPageScriptHash = None, upd_navPageSections = None\<rparr>"

text \<open>
  The messages to the host and the effects of a handler. The page name of
  \<open>SET_CURRENT_PAGE_NAME\<close> and of \<open>onUpdatePageUrl\<close> and the hash of
  \<open>SET_CURRENT_PAGE_NAME\<close> are options: the sectioned handler passes
  \<^verbatim>\<open>currentPage.pageName as string\<close>, and the legacy closure passes
  \<^verbatim>\<open>this.currentPageScriptHash as string\<close>, and a cast checks nothing at run time.
\<close>

datatype HostMessage =
    SET_APP_PAGES "IAppPage list"
  | SET_CURRENT_PAGE_NAME "string option" "string option"

datatype effect =
    OnUpdatePageUrl string "string option" bool
  | OnPageNotFound string
  | SetDocumentTitle string
  | Enqueue string nat "bool option"
  | SendMessageToHost HostMessage

datatype error = TypeError

text \<open>The fields of the legacy strategy object.\<close>

record AppNavigationV1 =
  appPages :: "IAppPage list"
  currentPageScriptHash :: "string option"
  hideSidebarNav :: "bool option"

text \<open>
  The second component of a state update is a closure \<^verbatim>\<open>() => void\<close>. The closure of
  the legacy \<^verbatim>\<open>handleNewSession\<close> reads \<^verbatim>\<open>this.appPages\<close> and
  \<^verbatim>\<open>this.currentPageScriptHash\<close> when it is called, not when it is built, so a deferred
  procedure is a function of the fields the captured legacy object has when the procedure
  runs. The other closures capture constants only and ignore the argument.
\<close>

type_synonym deferred = "AppNavigationV1 \<Rightarrow> effect list"

type_synonym MaybeStateUpdate = "(StatePatch \<times> deferred) option"

type_synonym outcome = "error + MaybeStateUpdate"

text \<open>Readers of an outcome.\<close>

definition returned_patch :: "outcome \<Rightarrow> StatePatch option" where
  "returned_patch r = (case r of Inr (Some (p, d)) \<Rightarrow> Some p | _ \<Rightarrow> None)"

definition returned_deferred :: "outcome \<Rightarrow> deferred option" where
  "returned_deferred r = (case r of Inr (Some (p, d)) \<Rightarrow> Some d | _ \<Rightarrow> None)"

text \<open>\<^verbatim>\<open>x ?? ""\<close> and \<^verbatim>\<open>x || ""\<close> on a string, \<^verbatim>\<open>x ?? false\<close> and the truth test on a bool.\<close>

definition or_empty :: "string option \<Rightarrow> string" where
  "or_empty x = (case x of None \<Rightarrow> [] | Some s \<Rightarrow> s)"

definition or_false :: "bool option \<Rightarrow> bool" where
  "or_false x = (case x of None \<Rightarrow> False | Some b \<Rightarrow> b)"

text \<open>
  The title suffix \<^verbatim>\<open>" \<cdot> Streamlit"\<close>: a string is a list of bytes, so the middle dot
  (U+00B7) is its two UTF-8 bytes.
\<close>

definition title_suffix :: string where
  "title_suffix = CHR '' '' # CHR 0xC2 # CHR 0xB7 # '' Streamlit''"

subsection \<open>The legacy strategy, AppNavigationV1\<close>

definition new_AppNavigationV1 :: AppNavigationV1 where
  "new_AppNavigationV1 =
     \<lparr>appPages = [], currentPageScriptHash = None, hideSidebarNav = None\<rparr>"

text \<open>
  \<^verbatim>\<open>this.appPages[0] as IAppPage\<close> is \<^verbatim>\<open>undefined\<close> on an empty list, and reading
  \<^verbatim>\<open>mainPage.pageName\<close> then throws, after the three fields have been assigned and
  before any callback.
\<close>

definition V1_handleNewSession ::
  "AppNavigationV1 \<Rightarrow> NewSession \<Rightarrow> AppNavigationV1 \<times> effect list \<times> outcome" where
  "V1_handleNewSession v newSession =
     (let hide = or_false (case ns_config newSession of
                             None \<Rightarrow> None | Some c \<Rightarrow> cfg_hideSidebarNav c);
          cur = ns_pageScriptHash newSession;
          this = v\<lparr>appPages := ns_appPages newSession,
                   currentPageScriptHash := Some cur,
                   hideSidebarNav := Some hide\<rparr>
      in case appPages this of
           [] \<Rightarrow> (this, [], Inl TypeError)
         | mainPage # _ \<Rightarrow>
             (let mainPageName = or_empty (pageName mainPage);
                  newPageName =
                    or_empty (case find (\<lambda>page. pageScriptHash page = Some cur) (appPages this) of
                                None \<Rightarrow> None | Some page \<Rightarrow> pageName page);
                  isViewingMainPage = (pageScriptHash mainPage = Some cur)
              in (this,
                  [OnUpdatePageUrl mainPageName (Some newPageName) isViewingMainPage,
                   SetDocumentTitle (newPageName @ title_suffix),
                   Enqueue ''updateReport'' (length (appPages this)) (Some isViewingMainPage)],
                  Inr (Some
                    (no_patch\<lparr>upd_hideSidebarNav := Some hide,
                              upd_appPages := Some (appPages this),
                              upd_currentPageScriptHash := Some cur\<rparr>,
                     \<lambda>this'.
                       [SendMessageToHost (SET_APP_PAGES (appPages this')),
                        SendMessageToHost
                          (SET_CURRENT_PAGE_NAME
                             (Some (if isViewingMainPage then [] else newPageName))
                             (currentPageScriptHash this'))])))))"

definition V1_handlePagesChanged ::
  "AppNavigationV1 \<Rightarrow> PagesChanged \<Rightarrow> AppNavigationV1 \<times> effect list \<times> outcome" where
  "V1_handlePagesChanged v pagesChangedMsg =
     (let pages = pc_appPages pagesChangedMsg
      in (v, [],
          Inr (Some (no_patch\<lparr>upd_appPages := Some pages\<rparr>,
                     \<lambda>_. [SendMessageToHost (SET_APP_PAGES pages)]))))"

definition V1_handlePageNotFound ::
  "AppNavigationV1 \<Rightarrow> PageNotFound \<Rightarrow> AppNavigationV1 \<times> effect list \<times> outcome" where
  "V1_handlePageNotFound v pageNotFound =
     (let name = pnf_pageName pageNotFound;
          hash = or_empty (case appPages v of [] \<Rightarrow> None | p # _ \<Rightarrow> pageScriptHash p)
      in (v, [OnPageNotFound name],
          Inr (Some (no_patch\<lparr>upd_currentPageScriptHash := Some hash\<rparr>,
                     \<lambda>_. [SendMessageToHost (SET_CURRENT_PAGE_NAME (Some []) (Some hash))]))))"

subsection \<open>The sectioned strategy, AppNavigationV2\<close>

text \<open>The strategy has no field of its own, so its handlers take no state.\<close>

definition V2_handleNewSession :: "NewSession \<Rightarrow> effect list \<times> outcome" where
  "V2_handleNewSession newSession = ([SetDocumentTitle title_suffix], Inr None)"

text \<open>The loop over the sections that fills the map, and the \<^verbatim>\<open>flatMap\<close>.\<close>

definition section_key :: "NavigationSection \<Rightarrow> string" where
  "section_key s = or_empty (header s)"

definition build_navPageSections ::
  "NavigationSection list \<Rightarrow> (string, IAppPage list option) js_map" where
  "build_navPageSections secs =
     foldl (\<lambda>m s. Map_set (section_key s) (sec_appPages s) m) [] secs"

definition section_pages :: "NavigationSection \<Rightarrow> IAppPage list" where
  "section_pages s = (case sec_appPages s of None \<Rightarrow> [] | Some ps \<Rightarrow> ps)"

definition flatten_sections :: "NavigationSection list \<Rightarrow> IAppPage list" where
  "flatten_sections secs = concat (map section_pages secs)"

text \<open>
  \<^verbatim>\<open>appPages.find(...) as IAppPage\<close> is \<^verbatim>\<open>undefined\<close> when no page has the hash of
  the message, and reading \<^verbatim>\<open>currentPage.pageScriptHash\<close> then throws, before the
  metrics call and the callback. A page that is found has the hash of the message, so
  the patch carries \<open>currentPageScriptHash\<close>.
\<close>

definition V2_handleNavigation :: "Navigation \<Rightarrow> effect list \<times> outcome" where
  "V2_handleNavigation navigationMsg =
     (let navPageSections = build_navPageSections (sections navigationMsg);
          pages = flatten_sections (sections navigationMsg);
          hide = (position navigationMsg = ''hidden'')
      in case find (\<lambda>p. pageScriptHash p = Some (nav_pageScriptHash navigationMsg)) pages of
           None \<Rightarrow> ([], Inl TypeError)
         | Some currentPage \<Rightarrow>
             (let hash = pageScriptHash currentPage;
                  currentPageName =
                    (if isDefault currentPage = Some True then Some []
                     else pageName currentPage)
              in ([Enqueue ''updateReport'' (length pages) (isDefault currentPage),
                   OnUpdatePageUrl [] currentPageName (or_false (isDefault currentPage))],
                  Inr (Some
                    (\<lparr>upd_hideSidebarNav = Some hide,
                      upd_appPages = Some [],
                      upd_currentPageScriptHash = hash,
                      upd_navPageSections = Some navPageSections\<rparr>,
                     \<lambda>_. [SendMessageToHost (SET_APP_PAGES pages),
                          SendMessageToHost (SET_CURRENT_PAGE_NAME currentPageName hash)])))))"

definition V2_handlePagesChanged :: "PagesChanged \<Rightarrow> effect list \<times> outcome" where
  "V2_handlePagesChanged pagesChangedMsg = ([], Inr None)"

definition V2_handlePageNotFound :: "PageNotFound \<Rightarrow> effect list \<times> outcome" where
  "V2_handlePageNotFound pageNotFound = ([], Inr None)"

subsection \<open>The dispatcher, AppNavigation\<close>

text \<open>
  The managers and callbacks given to the constructor are read-only and opaque; the one
  mutable field is \<^verbatim>\<open>versionManager\<close>, which is \<^verbatim>\<open>null\<close>, a legacy object or a
  sectioned object.
\<close>

datatype versionManager = Null | V1 AppNavigationV1 | V2

record AppNavigation =
  versionManager :: versionManager

definition new_AppNavigation :: AppNavigation where
  "new_AppNavigation = \<lparr>versionManager = Null\<rparr>"

definition handleNewSession ::
  "AppNavigation \<Rightarrow> NewSession \<Rightarrow> AppNavigation \<times> effect list \<times> outcome" where
  "handleNewSession a newSession =
     (let a1 = (if length (ns_appPages newSession) > 1 \<and> versionManager a = Null
                then a\<lparr>versionManager := V1 new_AppNavigationV1\<rparr> else a)
      in case versionManager a1 of
           Null \<Rightarrow> (a1, [], Inr None)
         | V1 v \<Rightarrow>
             (case V1_handleNewSession v newSession of
                (v', es, r) \<Rightarrow> (a1\<lparr>versionManager := V1 v'\<rparr>, es, r))
         | V2 \<Rightarrow>
             (case V2_handleNewSession newSession of (es, r) \<Rightarrow> (a1, es, r)))"

definition handlePagesChanged ::
  "AppNavigation \<Rightarrow> PagesChanged \<Rightarrow> AppNavigation \<times> effect list \<times> outcome" where
  "handlePagesChanged a pagesChangedMsg =
     (case versionManager a of
        Null \<Rightarrow> (a, [], Inr None)
      | V1 v \<Rightarrow>
          (case V1_handlePagesChanged v pagesChangedMsg of
             (v', es, r) \<Rightarrow> (a\<lparr>versionManager := V1 v'\<rparr>, es, r))
      | V2 \<Rightarrow>
          (case V2_handlePagesChanged pagesChangedMsg of (es, r) \<Rightarrow> (a, es, r)))"

definition handleNavigation ::
  "AppNavigation \<Rightarrow> Navigation \<Rightarrow> AppNavigation \<times> effect list \<times> outcome" where
  "handleNavigation a navigation =
     (let a1 = (if versionManager a \<noteq> V2 then a\<lparr>versionManager := V2\<rparr> else a)
      in case V2_handleNavigation navigation of (es, r) \<Rightarrow> (a1, es, r))"

definition handlePageNotFound ::
  "AppNavigation \<Rightarrow> PageNotFound \<Rightarrow> AppNavigation \<times> effect list \<times> outcome" where
  "handlePageNotFound a pageNotFoundMsg =
     (case versionManager a of
        Null \<Rightarrow> (a, [], Inr None)
      | V1 v \<Rightarrow>
          (case V1_handlePageNotFound v pageNotFoundMsg of
             (v', es, r) \<Rightarrow> (a\<lparr>versionManager := V1 v'\<rparr>, es, r))
      | V2 \<Rightarrow>
          (case V2_handlePageNotFound pageNotFoundMsg of (es, r) \<Rightarrow> (a, es, r)))"

subsection \<open>Sequences of events\<close>

datatype event =
    NewSessionEvent NewSession
  | PagesChangedEvent PagesChanged
  | NavigationEvent Navigation
  | PageNotFoundEvent PageNotFound

fun handle :: "AppNavigation \<Rightarrow> event \<Rightarrow> AppNavigation \<times> effect list \<times> outcome" where
  "handle a (NewSessionEvent m) = handleNewSession a m"
| "handle a (PagesChangedEvent m) = handlePagesChanged a m"
| "handle a (NavigationEvent m) = handleNavigation a m"
| "handle a (PageNotFoundEvent m) = handlePageNotFound a m"

text \<open>
  The instance after a sequence of events. A handler that throws leaves the instance as
  it was at the throw, and the next event finds it so.
\<close>

definition after_events :: "AppNavigation \<Rightarrow> event list \<Rightarrow> AppNavigation" where
  "after_events a evs = foldl (\<lambda>s e. fst (handle s e)) a evs"

text \<open>Which strategy is active, and the transitions between strategies.\<close>

datatype strategy = NoStrategy | Legacy | Sectioned

definition active :: "AppNavigation \<Rightarrow> strategy" where
  "active a = (case versionManager a of
                 Null \<Rightarrow> NoStrategy | V1 _ \<Rightarrow> Legacy | V2 \<Rightarrow> Sectioned)"

fun promotion :: "strategy \<Rightarrow> strategy \<Rightarrow> bool" where
  "promotion NoStrategy Legacy = True"
| "promotion NoStrategy Sectioned = True"
| "promotion Legacy Sectioned = True"
| "promotion _ _ = False"

subsection \<open>Example messages\<close>

text \<open>
  A two-page legacy session (pages \<^verbatim>\<open>{hash: "h1", name: "Home"}\<close> and
  \<^verbatim>\<open>{hash: "h2", name: "About"}\<close>, current hash \<^verbatim>\<open>"h2"\<close>, no config), and a
  navigation message without sections.
\<close>

definition home_page :: IAppPage where
  "home_page = \<lparr>pageScriptHash = Some ''h1'', pageName = Some ''Home'', isDefault = None\<rparr>"

definition about_page :: IAppPage where
  "about_page = \<lparr>pageScriptHash = Some ''h2'', pageName = Some ''About'', isDefault = None\<rparr>"

definition about_session :: NewSession where
  "about_session =
     \<lparr>ns_appPages = [home_page, about_page], ns_pageScriptHash = ''h2'', ns_config = None\<rparr>"

definition empty_navigation :: Navigation where
  "empty_navigation = \<lparr>sections = [], position = ''hidden'', nav_pageScriptHash = ''h2''\<rparr>"

text \<open>
  A session with one page and one with none; a navigation message with the sections
  \<^verbatim>\<open>[{header: "A", appPages: [home, about]}, {header: "", appPages: [third]}]\<close> whose
  current hash is the one of the second page; and a list of sections in which the header
  \<^verbatim>\<open>"A"\<close> comes twice.
\<close>

definition third_page :: IAppPage where
  "third_page = \<lparr>pageScriptHash = Some ''h3'', pageName = Some ''More'', isDefault = Some True\<rparr>"

definition single_page_session :: NewSession where
  "single_page_session =
     \<lparr>ns_appPages = [home_page], ns_pageScriptHash = ''h1'', ns_config = None\<rparr>"

definition empty_session :: NewSession where
  "empty_session = \<lparr>ns_appPages = [], ns_pageScriptHash = ''h1'', ns_config = None\<rparr>"

definition sectioned_navigation :: Navigation where
  "sectioned_navigation =
     \<lparr>sections = [\<lparr>header = Some ''A'', sec_appPages = Some [home_page, about_page]\<rparr>,
                  \<lparr>header = Some [], sec_appPages = Some [third_page]\<rparr>],
      position = ''sidebar'', nav_pageScriptHash = ''h2''\<rparr>"

definition repeated_header_sections :: "NavigationSection list" where
  "repeated_header_sections =
     [\<lparr>header = Some ''A'', sec_appPages = Some [home_page]\<rparr>,
      \<lparr>header = Some ''B'', sec_appPages = Some [about_page]\<rparr>,
      \<lparr>header = Some ''A'', sec_appPages = Some [third_page]\<rparr>]"

definition legacy_with_pages :: AppNavigationV1 where
  "legacy_with_pages =
     \<lparr>appPages = [home_page, about_page], currentPageScriptHash = Some ''h2'',
      hideSidebarNav = Some False\<rparr>"

section \<open>Properties of the dispatcher\<close>

subsection \<open>One event\<close>

lemma handle_step:
  "active (fst (handle a e)) = active a \<or> promotion (active a) (active (fst (handle a e)))"
  by (cases e; cases "versionManager a")
     (simp_all add: active_def handleNewSession_def handlePagesChanged_def handleNavigation_def
        handlePageNotFound_def Let_def split: prod.splits)

lemma handle_sectioned:
  "active a = Sectioned \<Longrightarrow> active (fst (handle a e)) = Sectioned"
  by (cases e; cases "versionManager a")
     (simp_all add: active_def handleNewSession_def handlePagesChanged_def handleNavigation_def
        handlePageNotFound_def Let_def split: prod.splits)

subsection \<open>Sequences of events\<close>

lemma after_events_snoc:
  "after_events a (evs @ [e]) = fst (handle (after_events a evs) e)"
  by (simp add: after_events_def)

lemma after_events_append:
  "after_events a (xs @ ys) = after_events (after_events a xs) ys"
  by (simp add: after_events_def)

lemma after_events_sectioned:
  "active a = Sectioned \<Longrightarrow> active (after_events a evs) = Sectioned"
proof (induction evs rule: rev_induct)
  case Nil
  then show ?case by (simp add: after_events_def)
next
  case (snoc e evs)
  then show ?case
    unfolding after_events_snoc by (intro handle_sectioned) simp
qed

text \<open>
  Claim C1. Along every sequence of events handled by one instance, starting from any
  state of the instance, each event either keeps the kind of the active strategy or
  changes it by one of the three promotions (none to legacy, none to sectioned, legacy to
  sectioned); and once the sectioned strategy is active after \<open>i\<close> events, it is
  still the active one, hence not the legacy one, after any \<open>j \<ge> i\<close> events.
\<close>

theorem strategy_only_promoted:
  "(\<forall>i < length evs.
      active (after_events a (take (Suc i) evs)) = active (after_events a (take i evs)) \<or>
      promotion (active (after_events a (take i evs)))
                (active (after_events a (take (Suc i) evs)))) \<and>
   (\<forall>i j. i \<le> j \<and> active (after_events a (take i evs)) = Sectioned \<longrightarrow>
      active (after_events a (take j evs)) = Sectioned \<and>
      active (after_events a (take j evs)) \<noteq> Legacy)"
proof (intro conjI allI impI)
  fix i assume "i < length evs"
  then have "take (Suc i) evs = take i evs @ [evs ! i]"
    by (simp add: take_Suc_conv_app_nth)
  then show "active (after_events a (take (Suc i) evs)) = active (after_events a (take i evs)) \<or>
      promotion (active (after_events a (take i evs)))
                (active (after_events a (take (Suc i) evs)))"
    by (simp only: after_events_snoc handle_step)
next
  fix i j assume h: "i \<le> j \<and> active (after_events a (take i evs)) = Sectioned"
  then have "take j evs = take i evs @ take (j - i) (drop i evs)"
    by (metis le_add_diff_inverse take_add)
  then have "after_events a (take j evs) =
             after_events (after_events a (take i evs)) (take (j - i) (drop i evs))"
    by (simp only: after_events_append)
  with h show s: "active (after_events a (take j evs)) = Sectioned"
    by (simp add: after_events_sectioned)
  then show "active (after_events a (take j evs)) \<noteq> Legacy" by simp
qed

text \<open>
  The events new session (two pages), navigation, new session (two pages) on a fresh
  instance: legacy after the first, sectioned after the second and still after the third.
\<close>

theorem strategy_only_promoted_witness:
  "active (after_events new_AppNavigation
     (take 1 [NewSessionEvent about_session, NavigationEvent empty_navigation,
              NewSessionEvent about_session])) = Legacy \<and>
   active (after_events new_AppNavigation
     (take 2 [NewSessionEvent about_session, NavigationEvent empty_navigation,
              NewSessionEvent about_session])) = Sectioned \<and>
   active (after_events new_AppNavigation
     (take 3 [NewSessionEvent about_session, NavigationEvent empty_navigation,
              NewSessionEvent about_session])) = Sectioned"
  (is "active (after_events _ (take 1 ?evs)) = _ \<and> _")
proof -
  have one: "active (after_events new_AppNavigation (take 1 ?evs)) = Legacy"
    by (simp add: after_events_def active_def new_AppNavigation_def handleNewSession_def
          V1_handleNewSession_def new_AppNavigationV1_def about_session_def Let_def)
  have two: "active (after_events new_AppNavigation (take 2 ?evs)) = Sectioned"
    by (simp add: after_events_def active_def new_AppNavigation_def handleNewSession_def
          V1_handleNewSession_def new_AppNavigationV1_def handleNavigation_def
          V2_handleNavigation_def about_session_def empty_navigation_def Let_def
          take_Suc_Cons numeral_2_eq_2 split: prod.splits)
  have three: "(2::nat) \<le> 3 \<and> active (after_events new_AppNavigation (take 2 ?evs)) = Sectioned"
    using two by simp
  from strategy_only_promoted [of ?evs new_AppNavigation, THEN conjunct2, rule_format, OF three]
  show ?thesis using one two by simp
qed

subsection \<open>New sessions\<close>

text \<open>
  Claim C2. On a new session: with no strategy and more than one page, a legacy strategy
  is created and receives the event; with a strategy already there, legacy or sectioned,
  that strategy receives the event and stays the active one; with no strategy and exactly
  one page, nothing is returned, nothing is done and no strategy becomes active.
\<close>

theorem new_session_dispatch:
  "(versionManager a = Null \<and> 1 < length (ns_appPages m) \<longrightarrow>
      handleNewSession a m =
        (case V1_handleNewSession new_AppNavigationV1 m of
           (v', es, r) \<Rightarrow> (a\<lparr>versionManager := V1 v'\<rparr>, es, r)) \<and>
      active (fst (handleNewSession a m)) = Legacy) \<and>
   (\<forall>v. versionManager a = V1 v \<longrightarrow>
      handleNewSession a m =
        (case V1_handleNewSession v m of
           (v', es, r) \<Rightarrow> (a\<lparr>versionManager := V1 v'\<rparr>, es, r)) \<and>
      active (fst (handleNewSession a m)) = Legacy) \<and>
   (versionManager a = V2 \<longrightarrow>
      handleNewSession a m = (a, V2_handleNewSession m) \<and>
      active (fst (handleNewSession a m)) = Sectioned) \<and>
   (versionManager a = Null \<and> length (ns_appPages m) = 1 \<longrightarrow>
      handleNewSession a m = (a, [], Inr None) \<and>
      active (fst (handleNewSession a m)) = NoStrategy)"
  by (auto simp: handleNewSession_def active_def Let_def split: prod.splits)

theorem new_session_dispatch_witness:
  "active (fst (handleNewSession new_AppNavigation about_session)) = Legacy \<and>
   active (fst (handleNewSession \<lparr>versionManager = V1 legacy_with_pages\<rparr> single_page_session))
     = Legacy \<and>
   handleNewSession \<lparr>versionManager = V2\<rparr> about_session =
     (\<lparr>versionManager = V2\<rparr>, V2_handleNewSession about_session) \<and>
   handleNewSession new_AppNavigation single_page_session =
     (new_AppNavigation, [], Inr None)"
proof -
  have fresh: "versionManager new_AppNavigation = Null \<and> 1 < length (ns_appPages about_session)"
    by (simp add: new_AppNavigation_def about_session_def)
  have legacy: "versionManager \<lparr>versionManager = V1 legacy_with_pages\<rparr> = V1 legacy_with_pages"
    by simp
  have sectioned: "versionManager \<lparr>versionManager = V2\<rparr> = V2"
    by simp
  have single: "versionManager new_AppNavigation = Null \<and>
      length (ns_appPages single_page_session) = 1"
    by (simp add: new_AppNavigation_def single_page_session_def)
  from new_session_dispatch [of new_AppNavigation about_session] fresh
  have "active (fst (handleNewSession new_AppNavigation about_session)) = Legacy"
    by blast
  moreover
  from new_session_dispatch [of "\<lparr>versionManager = V1 legacy_with_pages\<rparr>" single_page_session]
    legacy
  have "active (fst (handleNewSession \<lparr>versionManager = V1 legacy_with_pages\<rparr>
           single_page_session)) = Legacy"
    by blast
  moreover
  from new_session_dispatch [of "\<lparr>versionManager = V2\<rparr>" about_session] sectioned
  have "handleNewSession \<lparr>versionManager = V2\<rparr> about_session =
     (\<lparr>versionManager = V2\<rparr>, V2_handleNewSession about_session)"
    by blast
  moreover
  from new_session_dispatch [of new_AppNavigation single_page_session] single
  have "handleNewSession new_AppNavigation single_page_session =
     (new_AppNavigation, [], Inr None)"
    by blast
  ultimately show ?thesis by simp
qed

text \<open>
  Claim C10. With no strategy active, a new session without any page is a no-op as well:
  nothing is returned, nothing is done and no strategy becomes active. In general, with
  no strategy active, the legacy strategy becomes active exactly when the session has
  more than one page, and the event is a no-op exactly when it has at most one.
\<close>

theorem new_session_without_pages:
  "(versionManager a = Null \<and> ns_appPages m = [] \<longrightarrow>
      handleNewSession a m = (a, [], Inr None) \<and>
      active (fst (handleNewSession a m)) = NoStrategy) \<and>
   (versionManager a = Null \<longrightarrow>
      (active (fst (handleNewSession a m)) = Legacy) = (1 < length (ns_appPages m)) \<and>
      (handleNewSession a m = (a, [], Inr None)) = (length (ns_appPages m) \<le> 1))"
  by (auto simp: handleNewSession_def active_def Let_def V1_handleNewSession_def
        split: prod.splits list.splits)

theorem new_session_without_pages_witness:
  "versionManager new_AppNavigation = Null \<and> ns_appPages empty_session = [] \<and>
   handleNewSession new_AppNavigation empty_session = (new_AppNavigation, [], Inr None) \<and>
   active (fst (handleNewSession new_AppNavigation empty_session)) = NoStrategy"
proof -
  have h: "versionManager new_AppNavigation = Null \<and> ns_appPages empty_session = []"
    by (simp add: new_AppNavigation_def empty_session_def)
  with new_session_without_pages [of new_AppNavigation empty_session]
  show ?thesis by blast
qed

subsection \<open>Navigation events\<close>

text \<open>
  Claim C3. After a navigation event the sectioned strategy is the active one, whatever
  was active before (nothing, legacy or sectioned), also when the handler throws. The
  effects and the outcome are those of the sectioned handler on the event, and nothing of
  the previous state, in particular no field of a legacy strategy, has a part in the
  result.
\<close>

theorem navigation_dispatch:
  "versionManager (fst (handleNavigation a m)) = V2 \<and>
   active (fst (handleNavigation a m)) = Sectioned \<and>
   snd (handleNavigation a m) = V2_handleNavigation m \<and>
   handleNavigation a m = handleNavigation new_AppNavigation m"
  by (cases a)
     (auto simp: handleNavigation_def active_def new_AppNavigation_def Let_def
        split: prod.splits)

theorem navigation_dispatch_witness:
  "versionManager
     (fst (handleNavigation \<lparr>versionManager = V1 legacy_with_pages\<rparr> sectioned_navigation)) = V2 \<and>
   versionManager (fst (handleNavigation new_AppNavigation empty_navigation)) = V2 \<and>
   versionManager (fst (handleNavigation \<lparr>versionManager = V2\<rparr> sectioned_navigation)) = V2"
  using navigation_dispatch [of "\<lparr>versionManager = V1 legacy_with_pages\<rparr>" sectioned_navigation]
    navigation_dispatch [of new_AppNavigation empty_navigation]
    navigation_dispatch [of "\<lparr>versionManager = V2\<rparr>" sectioned_navigation]
  by blast

section \<open>Properties of the sectioned strategy\<close>

subsection \<open>Looking up the current page\<close>

lemma find_present:
  "x \<in> set xs \<Longrightarrow> P x \<Longrightarrow> \<exists>y. find P xs = Some y \<and> P y \<and> y \<in> set xs"
  by (induction xs) auto

lemma find_absent: "(find P xs = None) = (\<forall>x \<in> set xs. \<not> P x)"
  by (induction xs) auto

text \<open>
  Claim C4. When the flattened page list of a navigation message holds a page with the
  hash of the message, the sectioned handler returns a patch and a deferred procedure.
  The patch carries the empty list as \<open>appPages\<close> and the section map as
  \<open>navPageSections\<close>. The procedure, whenever it runs, sends \<open>SET_APP_PAGES\<close> with
  the whole flattened list (which is not empty) and then \<open>SET_CURRENT_PAGE_NAME\<close>
  with the name of the current page, the first page of the flattened list with that
  hash (the empty name when the page is the default page), and the hash.
\<close>

theorem navigation_patch:
  assumes "p \<in> set (flatten_sections (sections m))"
      and "pageScriptHash p = Some (nav_pageScriptHash m)"
  shows "\<exists>patch d cur.
           snd (V2_handleNavigation m) = Inr (Some (patch, d)) \<and>
           find (\<lambda>q. pageScriptHash q = Some (nav_pageScriptHash m))
                (flatten_sections (sections m)) = Some cur \<and>
           upd_appPages patch = Some [] \<and>
           upd_navPageSections patch = Some (build_navPageSections (sections m)) \<and>
           (\<forall>this. d this =
              [SendMessageToHost (SET_APP_PAGES (flatten_sections (sections m))),
               SendMessageToHost
                 (SET_CURRENT_PAGE_NAME
                    (if isDefault cur = Some True then Some [] else pageName cur)
                    (Some (nav_pageScriptHash m)))]) \<and>
           flatten_sections (sections m) \<noteq> []"
proof -
  from find_present [of p "flatten_sections (sections m)"
      "\<lambda>q. pageScriptHash q = Some (nav_pageScriptHash m)"] assms
  obtain cur where c: "find (\<lambda>q. pageScriptHash q = Some (nav_pageScriptHash m))
      (flatten_sections (sections m)) = Some cur"
    and h: "pageScriptHash cur = Some (nav_pageScriptHash m)"
    by blast
  from assms(1) have ne: "flatten_sections (sections m) \<noteq> []" by auto
  show ?thesis
    using c h ne by (simp add: V2_handleNavigation_def Let_def)
qed

text \<open>
  On the example message the current page is the second one, which is not a default page:
  the patch clears \<open>appPages\<close> and the procedure sends the three pages and the name
  \<^verbatim>\<open>"About"\<close>.
\<close>

theorem navigation_patch_witness:
  "about_page \<in> set (flatten_sections (sections sectioned_navigation)) \<and>
   pageScriptHash about_page = Some (nav_pageScriptHash sectioned_navigation) \<and>
   (\<exists>patch d.
      snd (V2_handleNavigation sectioned_navigation) = Inr (Some (patch, d)) \<and>
      upd_appPages patch = Some [] \<and>
      d new_AppNavigationV1 =
        [SendMessageToHost (SET_APP_PAGES [home_page, about_page, third_page]),
         SendMessageToHost (SET_CURRENT_PAGE_NAME (Some ''About'') (Some ''h2''))])"
proof -
  have flat: "flatten_sections (sections sectioned_navigation) =
      [home_page, about_page, third_page]"
    by (simp add: flatten_sections_def section_pages_def sectioned_navigation_def)
  have h1: "about_page \<in> set (flatten_sections (sections sectioned_navigation))"
    by (simp add: flat)
  have h2: "pageScriptHash about_page = Some (nav_pageScriptHash sectioned_navigation)"
    by (simp add: about_page_def sectioned_navigation_def)
  have cur: "find (\<lambda>q. pageScriptHash q = Some (nav_pageScriptHash sectioned_navigation))
      (flatten_sections (sections sectioned_navigation)) = Some about_page"
    by (simp add: flat) (simp add: home_page_def about_page_def sectioned_navigation_def)
  from navigation_patch [OF h1 h2] obtain patch d c where
    r: "snd (V2_handleNavigation sectioned_navigation) = Inr (Some (patch, d))" and
    f: "find (\<lambda>q. pageScriptHash q = Some (nav_pageScriptHash sectioned_navigation))
          (flatten_sections (sections sectioned_navigation)) = Some c" and
    a: "upd_appPages patch = Some []" and
    s: "d new_AppNavigationV1 =
          [SendMessageToHost (SET_APP_PAGES (flatten_sections (sections sectioned_navigation))),
           SendMessageToHost
             (SET_CURRENT_PAGE_NAME
                (if isDefault c = Some True then Some [] else pageName c)
                (Some (nav_pageScriptHash sectioned_navigation)))]"
    by blast
  from f cur have "c = about_page" by simp
  with s have "d new_AppNavigationV1 =
        [SendMessageToHost (SET_APP_PAGES [home_page, about_page, third_page]),
         SendMessageToHost (SET_CURRENT_PAGE_NAME (Some ''About'') (Some ''h2''))]"
    by (simp add: flat) (simp add: about_page_def sectioned_navigation_def)
  with r a h1 h2 show ?thesis by blast
qed

text \<open>
  Claim C8. When the flattened page list of a navigation message holds a page with the
  hash of the message, the sectioned handler returns a state update: the lookup cannot
  fail. When it holds none, nothing checks for it: the handler throws the
  \<^verbatim>\<open>TypeError\<close> of reading a field of \<^verbatim>\<open>undefined\<close>, having done nothing, and
  returns neither an error value nor a fallback update.
\<close>

theorem navigation_lookup:
  "((\<exists>p \<in> set (flatten_sections (sections m)).
        pageScriptHash p = Some (nav_pageScriptHash m)) \<longrightarrow>
      (\<exists>u. snd (V2_handleNavigation m) = Inr (Some u))) \<and>
   (\<not> (\<exists>p \<in> set (flatten_sections (sections m)).
        pageScriptHash p = Some (nav_pageScriptHash m)) \<longrightarrow>
      V2_handleNavigation m = ([], Inl TypeError))"
proof (intro conjI impI)
  assume "\<exists>p \<in> set (flatten_sections (sections m)).
        pageScriptHash p = Some (nav_pageScriptHash m)"
  then obtain cur where "find (\<lambda>q. pageScriptHash q = Some (nav_pageScriptHash m))
      (flatten_sections (sections m)) = Some cur"
    using find_present [of _ "flatten_sections (sections m)"
      "\<lambda>q. pageScriptHash q = Some (nav_pageScriptHash m)"] by blast
  then show "\<exists>u. snd (V2_handleNavigation m) = Inr (Some u)"
    by (simp add: V2_handleNavigation_def Let_def)
next
  assume "\<not> (\<exists>p \<in> set (flatten_sections (sections m)).
        pageScriptHash p = Some (nav_pageScriptHash m))"
  then have "find (\<lambda>q. pageScriptHash q = Some (nav_pageScriptHash m))
      (flatten_sections (sections m)) = None"
    by (simp add: find_absent)
  then show "V2_handleNavigation m = ([], Inl TypeError)"
    by (simp add: V2_handleNavigation_def Let_def)
qed

theorem navigation_lookup_witness:
  "(\<exists>p \<in> set (flatten_sections (sections sectioned_navigation)).
      pageScriptHash p = Some (nav_pageScriptHash sectioned_navigation)) \<and>
   (\<exists>u. snd (V2_handleNavigation sectioned_navigation) = Inr (Some u)) \<and>
   \<not> (\<exists>p \<in> set (flatten_sections (sections empty_navigation)).
      pageScriptHash p = Some (nav_pageScriptHash empty_navigation)) \<and>
   V2_handleNavigation empty_navigation = ([], Inl TypeError)"
proof -
  have present: "\<exists>p \<in> set (flatten_sections (sections sectioned_navigation)).
      pageScriptHash p = Some (nav_pageScriptHash sectioned_navigation)"
    by (simp add: flatten_sections_def section_pages_def sectioned_navigation_def
          about_page_def)
  have absent: "\<not> (\<exists>p \<in> set (flatten_sections (sections empty_navigation)).
      pageScriptHash p = Some (nav_pageScriptHash empty_navigation))"
    by (simp add: flatten_sections_def empty_navigation_def)
  from navigation_lookup [of sectioned_navigation] present
  have "\<exists>u. snd (V2_handleNavigation sectioned_navigation) = Inr (Some u)"
    by blast
  moreover
  from navigation_lookup [of empty_navigation] absent
  have "V2_handleNavigation empty_navigation = ([], Inl TypeError)"
    by blast
  ultimately show ?thesis using present absent by blast
qed

subsection \<open>The section map and the flattened list\<close>

lemma Map_set_keys:
  "map fst (Map_set k v m) = (if k \<in> set (map fst m) then map fst m else map fst m @ [k])"
  by (induction m) force+

lemma map_of_Map_set: "map_of (Map_set k v m) = (map_of m)(k \<mapsto> v)"
  by (induction m) (auto simp: fun_eq_iff)

lemma remdups_drop_later: "x \<in> set zs \<Longrightarrow> remdups (ys @ x # zs) = remdups (ys @ zs)"
  by (induction ys) auto

text \<open>
  The keys of the map after the loop, from any map with distinct keys: the keys it had,
  then the new headers in the order of their first section.
\<close>

lemma foldl_Map_set_keys:
  "distinct (map fst m) \<Longrightarrow>
   map fst (foldl (\<lambda>m s. Map_set (kf s) (vf s) m) m secs) =
     rev (remdups (rev (map fst m @ map kf secs)))"
proof (induction secs arbitrary: m)
  case Nil
  then show ?case by (simp add: distinct_remdups_id)
next
  case (Cons s secs)
  have d: "distinct (map fst (Map_set (kf s) (vf s) m))"
    using Cons.prems by (simp add: Map_set_keys)
  show ?case
  proof (cases "kf s \<in> set (map fst m)")
    case True
    then have "remdups (rev (map kf secs) @ kf s # rev (map fst m)) =
               remdups (rev (map kf secs) @ rev (map fst m))"
      by (intro remdups_drop_later) simp
    with True show ?thesis
      using Cons.IH [OF d] by (simp add: Map_set_keys)
  next
    case False
    then show ?thesis
      using Cons.IH [OF d] by (simp add: Map_set_keys)
  qed
qed

text \<open>The values after the loop: a later section overrides an earlier one.\<close>

lemma foldl_Map_set_map_of:
  "map_of (foldl (\<lambda>m s. Map_set (kf s) (vf s) m) m secs) =
     map_of m ++ map_of (rev (map (\<lambda>s. (kf s, vf s)) secs))"
proof (induction secs arbitrary: m)
  case Nil
  then show ?case by simp
next
  case (Cons s secs)
  show ?case
    by (simp add: Cons.IH map_of_Map_set fun_eq_iff map_add_def split: option.splits)
qed

lemma build_keys:
  "map fst (build_navPageSections secs) = rev (remdups (rev (map section_key secs)))"
  using foldl_Map_set_keys [of "[]" section_key sec_appPages secs]
  by (simp add: build_navPageSections_def)

lemma build_map_of:
  "map_of (build_navPageSections secs) =
     map_of (rev (map (\<lambda>s. (section_key s, sec_appPages s)) secs))"
  using foldl_Map_set_map_of [of section_key sec_appPages "[]" secs]
  by (simp add: build_navPageSections_def)

lemma returned_navigation:
  "snd (V2_handleNavigation m) = Inr (Some (patch, d)) \<Longrightarrow>
   upd_navPageSections patch = Some (build_navPageSections (sections m)) \<and>
   hd (d this) = SendMessageToHost (SET_APP_PAGES (flatten_sections (sections m)))"
  by (auto simp: V2_handleNavigation_def Let_def split: option.splits)

text \<open>
  Claim C5. For the sections \<^verbatim>\<open>[{header: "A", appPages: [p1, p2]}, {header: "",
  appPages: [p3]}]\<close> the section map has exactly the entries \<^verbatim>\<open>"A"\<close> with
  \<open>[p1, p2]\<close> and \<^verbatim>\<open>""\<close> with \<open>[p3]\<close>, in this order, and the flattened list is
  \<open>[p1, p2, p3]\<close>. Whenever the sectioned handler returns an update, its patch carries
  the section map of the message's sections, and the first message of its procedure
  carries their flattened list. In general: the key of a section is its header, the
  empty string when there is none; the keys of the map are the keys of the sections, each
  once, in the order of their first section; the value at a key is the page list of the
  last section with that key; each further section sets its key in the map built so far;
  and the flattened list of the sections with one more section is the flattened list of
  the sections followed by the pages of that section, so the pages come in section order.
\<close>

theorem sections_round_trip:
  "build_navPageSections
     [\<lparr>header = Some ''A'', sec_appPages = Some [p1, p2]\<rparr>,
      \<lparr>header = Some [], sec_appPages = Some [p3]\<rparr>] =
     [(''A'', Some [p1, p2]), ([], Some [p3])] \<and>
   flatten_sections
     [\<lparr>header = Some ''A'', sec_appPages = Some [p1, p2]\<rparr>,
      \<lparr>header = Some [], sec_appPages = Some [p3]\<rparr>] = [p1, p2, p3] \<and>
   (\<forall>patch d this. snd (V2_handleNavigation m) = Inr (Some (patch, d)) \<longrightarrow>
      upd_navPageSections patch = Some (build_navPageSections (sections m)) \<and>
      hd (d this) = SendMessageToHost (SET_APP_PAGES (flatten_sections (sections m)))) \<and>
   section_key s = (case header s of None \<Rightarrow> [] | Some h \<Rightarrow> h) \<and>
   map fst (build_navPageSections secs) = rev (remdups (rev (map section_key secs))) \<and>
   (\<forall>k. map_of (build_navPageSections secs) k =
      map_of (rev (map (\<lambda>s. (section_key s, sec_appPages s)) secs)) k) \<and>
   build_navPageSections (secs @ [s]) =
     Map_set (section_key s) (sec_appPages s) (build_navPageSections secs) \<and>
   flatten_sections [] = [] \<and>
   flatten_sections (secs @ [s]) =
     flatten_sections secs @ (case sec_appPages s of None \<Rightarrow> [] | Some ps \<Rightarrow> ps)"
proof (intro conjI allI impI)
  show "build_navPageSections
     [\<lparr>header = Some ''A'', sec_appPages = Some [p1, p2]\<rparr>,
      \<lparr>header = Some [], sec_appPages = Some [p3]\<rparr>] =
     [(''A'', Some [p1, p2]), ([], Some [p3])]"
    by (simp add: build_navPageSections_def section_key_def or_empty_def)
  show "flatten_sections
     [\<lparr>header = Some ''A'', sec_appPages = Some [p1, p2]\<rparr>,
      \<lparr>header = Some [], sec_appPages = Some [p3]\<rparr>] = [p1, p2, p3]"
    by (simp add: flatten_sections_def section_pages_def)
  show "section_key s = (case header s of None \<Rightarrow> [] | Some h \<Rightarrow> h)"
    by (simp add: section_key_def or_empty_def)
  show "map fst (build_navPageSections secs) = rev (remdups (rev (map section_key secs)))"
    by (rule build_keys)
  show "map_of (build_navPageSections secs) k =
      map_of (rev (map (\<lambda>s. (section_key s, sec_appPages s)) secs)) k" for k
    by (simp only: build_map_of)
  show "build_navPageSections (secs @ [s]) =
     Map_set (section_key s) (sec_appPages s) (build_navPageSections secs)"
    by (simp add: build_navPageSections_def)
  show "flatten_sections [] = []" by (simp add: flatten_sections_def)
  show "flatten_sections (secs @ [s]) =
     flatten_sections secs @ (case sec_appPages s of None \<Rightarrow> [] | Some ps \<Rightarrow> ps)"
    by (simp add: flatten_sections_def section_pages_def)
next
  fix patch d this
  assume "snd (V2_handleNavigation m) = Inr (Some (patch, d))"
  from returned_navigation [OF this]
  show "upd_navPageSections patch = Some (build_navPageSections (sections m))"
    and "hd (d this) = SendMessageToHost (SET_APP_PAGES (flatten_sections (sections m)))"
    by simp_all
qed

text \<open>
  The example message returns an update, whose patch has the two entries; and where the
  header \<^verbatim>\<open>"A"\<close> comes first and third, its key stays first and holds the pages of
  the third section.
\<close>

theorem sections_round_trip_witness:
  "(\<exists>patch d.
      snd (V2_handleNavigation sectioned_navigation) = Inr (Some (patch, d)) \<and>
      upd_navPageSections patch =
        Some [(''A'', Some [home_page, about_page]), ([], Some [third_page])] \<and>
      hd (d new_AppNavigationV1) =
        SendMessageToHost (SET_APP_PAGES [home_page, about_page, third_page])) \<and>
   map fst (build_navPageSections repeated_header_sections) = [''A'', ''B''] \<and>
   map_of (build_navPageSections repeated_header_sections) ''A'' = Some (Some [third_page])"
proof -
  note example = sections_round_trip [of home_page about_page third_page
      sectioned_navigation "\<lparr>header = None, sec_appPages = None\<rparr>" repeated_header_sections]
  have secs: "sections sectioned_navigation =
      [\<lparr>header = Some ''A'', sec_appPages = Some [home_page, about_page]\<rparr>,
       \<lparr>header = Some [], sec_appPages = Some [third_page]\<rparr>]"
    by (simp add: sectioned_navigation_def)
  have "find (\<lambda>q. pageScriptHash q = Some (nav_pageScriptHash sectioned_navigation))
      (flatten_sections (sections sectioned_navigation)) = Some about_page"
    by (simp add: flatten_sections_def section_pages_def sectioned_navigation_def
          home_page_def about_page_def)
  then obtain patch d where
    r: "snd (V2_handleNavigation sectioned_navigation) = Inr (Some (patch, d))"
    by (simp add: V2_handleNavigation_def Let_def)
  with example have
    "upd_navPageSections patch =
       Some [(''A'', Some [home_page, about_page]), ([], Some [third_page])]"
    "hd (d new_AppNavigationV1) =
       SendMessageToHost (SET_APP_PAGES [home_page, about_page, third_page])"
    by (simp_all add: secs)
  with r have first: "\<exists>patch d.
      snd (V2_handleNavigation sectioned_navigation) = Inr (Some (patch, d)) \<and>
      upd_navPageSections patch =
        Some [(''A'', Some [home_page, about_page]), ([], Some [third_page])] \<and>
      hd (d new_AppNavigationV1) =
        SendMessageToHost (SET_APP_PAGES [home_page, about_page, third_page])"
    by blast
  from example have
    "map fst (build_navPageSections repeated_header_sections) =
       rev (remdups (rev (map section_key repeated_header_sections)))"
    "map_of (build_navPageSections repeated_header_sections) ''A'' =
       map_of (rev (map (\<lambda>s. (section_key s, sec_appPages s)) repeated_header_sections)) ''A''"
    by blast+
  then have "map fst (build_navPageSections repeated_header_sections) = [''A'', ''B'']"
    and "map_of (build_navPageSections repeated_header_sections) ''A'' = Some (Some [third_page])"
    by (simp_all add: repeated_header_sections_def section_key_def or_empty_def)
  with first show ?thesis by blast
qed

section \<open>Properties of the legacy strategy\<close>

text \<open>
  Claim C6. A legacy strategy, whatever its fields, receives the new session with the
  pages \<^verbatim>\<open>{hash: "h1", name: "Home"}\<close> and \<^verbatim>\<open>{hash: "h2", name: "About"}\<close>, the
  current hash \<^verbatim>\<open>"h2"\<close> and no config (or a config without \<open>hideSidebarNav\<close>). It
  stores the pages, the hash and \<open>hideSidebarNav = false\<close>; it calls
  \<open>onUpdatePageUrl("Home", "About", false)\<close>, sets the document title to
  \<^verbatim>\<open>"About \<cdot> Streamlit"\<close> and queues the metrics event, in this order; and it returns
  the patch with \<open>hideSidebarNav = false\<close>, the two pages and the hash \<^verbatim>\<open>"h2"\<close>.
\<close>

theorem legacy_new_session_scenario:
  "fst (V1_handleNewSession v about_session) =
     \<lparr>appPages = [home_page, about_page], currentPageScriptHash = Some ''h2'',
      hideSidebarNav = Some False\<rparr> \<and>
   fst (snd (V1_handleNewSession v about_session)) =
     [OnUpdatePageUrl ''Home'' (Some ''About'') False,
      SetDocumentTitle (''About '' @ [CHR 0xC2, CHR 0xB7] @ '' Streamlit''),
      Enqueue ''updateReport'' 2 (Some False)] \<and>
   returned_patch (snd (snd (V1_handleNewSession v about_session))) =
     Some \<lparr>upd_hideSidebarNav = Some False, upd_appPages = Some [home_page, about_page],
           upd_currentPageScriptHash = Some ''h2'', upd_navPageSections = None\<rparr> \<and>
   returned_patch (snd (snd (V1_handleNewSession v
       (about_session\<lparr>ns_config := Some \<lparr>cfg_hideSidebarNav = None\<rparr>\<rparr>)))) =
     Some \<lparr>upd_hideSidebarNav = Some False, upd_appPages = Some [home_page, about_page],
           upd_currentPageScriptHash = Some ''h2'', upd_navPageSections = None\<rparr>"
  by (cases v)
     (simp add: V1_handleNewSession_def about_session_def home_page_def about_page_def
        Let_def or_false_def or_empty_def title_suffix_def returned_patch_def no_patch_def)

theorem legacy_new_session_scenario_witness:
  "fst (snd (V1_handleNewSession new_AppNavigationV1 about_session)) =
     [OnUpdatePageUrl ''Home'' (Some ''About'') False,
      SetDocumentTitle (''About '' @ [CHR 0xC2, CHR 0xB7] @ '' Streamlit''),
      Enqueue ''updateReport'' 2 (Some False)]"
  using legacy_new_session_scenario [of new_AppNavigationV1] by blast

text \<open>
  Claim C7. On a page-not-found event the legacy strategy calls \<open>onPageNotFound\<close>
  with the page name of the message in the handler itself, and that is all the handler
  does at once. The patch sets \<open>currentPageScriptHash\<close> to a fallback hash, and the
  deferred procedure, whenever it runs, only sends \<open>SET_CURRENT_PAGE_NAME\<close> with the
  empty name and the fallback hash. The fallback hash is the empty string when the
  stored page list is empty, and the hash of the first stored page otherwise (the empty
  string again should that page carry no hash).
\<close>

theorem legacy_page_not_found:
  "\<exists>fb d.
     V1_handlePageNotFound v m =
       (v, [OnPageNotFound (pnf_pageName m)],
        Inr (Some (no_patch\<lparr>upd_currentPageScriptHash := Some fb\<rparr>, d))) \<and>
     (\<forall>this. d this = [SendMessageToHost (SET_CURRENT_PAGE_NAME (Some []) (Some fb))]) \<and>
     (appPages v = [] \<longrightarrow> fb = []) \<and>
     (\<forall>p ps h. appPages v = p # ps \<and> pageScriptHash p = Some h \<longrightarrow> fb = h) \<and>
     (\<forall>p ps. appPages v = p # ps \<and> pageScriptHash p = None \<longrightarrow> fb = [])"
  by (auto simp: V1_handlePageNotFound_def Let_def or_empty_def split: list.splits)

theorem legacy_page_not_found_witness:
  "returned_patch (snd (snd
     (V1_handlePageNotFound new_AppNavigationV1 \<lparr>pnf_pageName = ''nowhere''\<rparr>))) =
     Some (no_patch\<lparr>upd_currentPageScriptHash := Some []\<rparr>) \<and>
   returned_patch (snd (snd
     (V1_handlePageNotFound legacy_with_pages \<lparr>pnf_pageName = ''nowhere''\<rparr>))) =
     Some (no_patch\<lparr>upd_currentPageScriptHash := Some ''h1''\<rparr>) \<and>
   fst (snd (V1_handlePageNotFound legacy_with_pages \<lparr>pnf_pageName = ''nowhere''\<rparr>)) =
     [OnPageNotFound ''nowhere'']"
proof -
  have none: "appPages new_AppNavigationV1 = []"
    by (simp add: new_AppNavigationV1_def)
  have some: "appPages legacy_with_pages = home_page # [about_page] \<and>
      pageScriptHash home_page = Some ''h1''"
    by (simp add: legacy_with_pages_def home_page_def)
  from legacy_page_not_found [of new_AppNavigationV1 "\<lparr>pnf_pageName = ''nowhere''\<rparr>"] none
  have "returned_patch (snd (snd
     (V1_handlePageNotFound new_AppNavigationV1 \<lparr>pnf_pageName = ''nowhere''\<rparr>))) =
     Some (no_patch\<lparr>upd_currentPageScriptHash := Some []\<rparr>)"
    by (auto simp: returned_patch_def)
  moreover
  from legacy_page_not_found [of legacy_with_pages "\<lparr>pnf_pageName = ''nowhere''\<rparr>"]
  obtain fb d where
    r: "V1_handlePageNotFound legacy_with_pages \<lparr>pnf_pageName = ''nowhere''\<rparr> =
       (legacy_with_pages, [OnPageNotFound (pnf_pageName \<lparr>pnf_pageName = ''nowhere''\<rparr>)],
        Inr (Some (no_patch\<lparr>upd_currentPageScriptHash := Some fb\<rparr>, d)))" and
    f: "\<forall>p ps h. appPages legacy_with_pages = p # ps \<and> pageScriptHash p = Some h
          \<longrightarrow> fb = h"
    by blast
  from f some have "fb = ''h1''" by blast
  with r have "returned_patch (snd (snd
     (V1_handlePageNotFound legacy_with_pages \<lparr>pnf_pageName = ''nowhere''\<rparr>))) =
     Some (no_patch\<lparr>upd_currentPageScriptHash := Some ''h1''\<rparr>)"
    and "fst (snd (V1_handlePageNotFound legacy_with_pages \<lparr>pnf_pageName = ''nowhere''\<rparr>)) =
     [OnPageNotFound ''nowhere'']"
    by (simp_all add: returned_patch_def)
  ultimately show ?thesis by blast
qed

text \<open>
  Claim C9. The handlers of a pages-changed and of a page-not-found event return the
  legacy strategy with every field as it was; the handler of a new session is the one
  that assigns the three fields, from the session. So after a new session, then a
  pages-changed event, then a page-not-found event, the fallback hash of the last comes
  from the first page of the session's page list (the empty string when the session had
  none), whatever pages the pages-changed event delivered.
\<close>

theorem legacy_fields_frame:
  "fst (V1_handlePagesChanged v pc) = v \<and>
   fst (V1_handlePageNotFound v pnf) = v \<and>
   fst (V1_handleNewSession v ns) =
     \<lparr>appPages = ns_appPages ns, currentPageScriptHash = Some (ns_pageScriptHash ns),
      hideSidebarNav = Some (or_false (case ns_config ns of
                                         None \<Rightarrow> None | Some c \<Rightarrow> cfg_hideSidebarNav c))\<rparr> \<and>
   returned_patch (snd (snd
     (V1_handlePageNotFound
        (fst (V1_handlePagesChanged (fst (V1_handleNewSession v ns)) pc)) pnf))) =
     Some (no_patch\<lparr>upd_currentPageScriptHash :=
             Some (case ns_appPages ns of [] \<Rightarrow> [] | p # _ \<Rightarrow> or_empty (pageScriptHash p))\<rparr>)"
  by (cases v)
     (simp add: V1_handlePagesChanged_def V1_handlePageNotFound_def V1_handleNewSession_def
        Let_def returned_patch_def or_empty_def split: list.splits)

text \<open>
  After the two-page session, a pages-changed event that delivers only the third page
  leaves the fallback hash at \<^verbatim>\<open>"h1"\<close>, not \<^verbatim>\<open>"h3"\<close>.
\<close>

theorem legacy_fields_frame_witness:
  "returned_patch (snd (snd
     (V1_handlePageNotFound
        (fst (V1_handlePagesChanged
           (fst (V1_handleNewSession new_AppNavigationV1 about_session))
           \<lparr>pc_appPages = [third_page]\<rparr>))
        \<lparr>pnf_pageName = ''nowhere''\<rparr>))) =
     Some (no_patch\<lparr>upd_currentPageScriptHash := Some ''h1''\<rparr>)"
proof -
  have "(case ns_appPages about_session of [] \<Rightarrow> [] | p # _ \<Rightarrow> or_empty (pageScriptHash p))
      = ''h1''"
    by (simp add: about_session_def home_page_def or_empty_def)
  with legacy_fields_frame [of new_AppNavigationV1 "\<lparr>pc_appPages = [third_page]\<rparr>"
      "\<lparr>pnf_pageName = ''nowhere''\<rparr>" about_session,
      THEN conjunct2, THEN conjunct2, THEN conjunct2]
  show ?thesis by (simp only:)
qed

end
